theory Spec2Isabelle
  imports Complex_Main "HOL-Library.Multiset" "HOL-Library.Char_ord" "HOL-Library.List_Lexorder"
begin

section \<open>Exceptions\<close>

text \<open>
  The exception classes of \<^verbatim>\<open>src/utils/exceptions.py\<close>, together with the built-in
  classes that the decorators raise, catch or let through (\<open>CancelledError\<close> is that of
  \<^verbatim>\<open>asyncio\<close>). \<open>base\<close> is the base named in each \<^verbatim>\<open>class\<close> statement.
\<close>

datatype exc_class =
    BaseException | KeyboardInterrupt | SystemExit | CancelledError
  | Exception | LookupError | KeyError | ArithmeticError | OverflowError
  | TypeError | ValueError
  | ICTTradingError
  | DataError | DataValidationError | DataSourceError | InsufficientDataError
  | ICTAnalysisError | PatternNotFoundError | InvalidPatternError
  | MLError | ModelNotFoundError | MLTrainingError | FeatureEngineeringError
  | TradingError | RiskManagementError | ExecutionError | PositionSizingError
  | BacktestError | PerformanceCalculationError
  | ConfigurationError | ValidationError

fun base :: "exc_class \<Rightarrow> exc_class option" where
  "base BaseException = None"
| "base KeyboardInterrupt = Some BaseException"
| "base SystemExit = Some BaseException"
| "base CancelledError = Some BaseException"
| "base Exception = Some BaseException"
| "base LookupError = Some Exception"
| "base KeyError = Some LookupError"
| "base ArithmeticError = Some Exception"
| "base OverflowError = Some ArithmeticError"
| "base TypeError = Some Exception"
| "base ValueError = Some Exception"
| "base ICTTradingError = Some Exception"
| "base DataError = Some ICTTradingError"
| "base DataValidationError = Some DataError"
| "base DataSourceError = Some DataError"
| "base InsufficientDataError = Some DataError"
| "base ICTAnalysisError = Some ICTTradingError"
| "base PatternNotFoundError = Some ICTAnalysisError"
| "base InvalidPatternError = Some ICTAnalysisError"
| "base MLError = Some ICTTradingError"
| "base ModelNotFoundError = Some MLError"
| "base MLTrainingError = Some MLError"
| "base FeatureEngineeringError = Some MLError"
| "base TradingError = Some ICTTradingError"
| "base RiskManagementError = Some TradingError"
| "base ExecutionError = Some TradingError"
| "base PositionSizingError = Some TradingError"
| "base BacktestError = Some ICTTradingError"
| "base PerformanceCalculationError = Some BacktestError"
| "base ConfigurationError = Some ICTTradingError"
| "base ValidationError = Some ICTTradingError"

text \<open>
  The class itself followed by its bases, at most \<open>n\<close> steps up. No class above has more
  than four proper ancestors (lemma \<open>mro_reaches_root\<close>), so four steps give the whole
  method resolution order.
\<close>

fun bases_upto :: "nat \<Rightarrow> exc_class \<Rightarrow> exc_class list" where
  "bases_upto 0 c = [c]"
| "bases_upto (Suc n) c = c # (case base c of None \<Rightarrow> [] | Some b \<Rightarrow> bases_upto n b)"

definition mro :: "exc_class \<Rightarrow> exc_class list" where
  "mro c = bases_upto 4 c"

definition issubclass :: "exc_class \<Rightarrow> exc_class \<Rightarrow> bool" where
  "issubclass c d = (d \<in> set (mro c))"

text \<open>An exception object: its class and its message.\<close>

record exn =
  cls :: exc_class
  msg :: string

definition isinstance :: "exn \<Rightarrow> exc_class \<Rightarrow> bool" where
  "isinstance e c = issubclass (cls e) c"



section \<open>Values, state and functions\<close>

text \<open>
  A Python value is either tabular (an object with \<^verbatim>\<open>columns\<close> and \<^verbatim>\<open>index\<close>
  attributes, here with its column labels and its \<^verbatim>\<open>len\<close>) or any other object.
\<close>

datatype 'x pyval = is_Table: Table (tcolumns: "string list") (trows: nat) | Obj 'x

datatype 'v outcome = Return 'v | Raise exn

text \<open>
  What the decorators do that can be observed from outside: calls of the innermost
  function, calls of \<^verbatim>\<open>sleep\<close> with their argument, and calls of the logger with the
  level and the values interpolated into the message.
\<close>

datatype level = DEBUG | WARNING | ERROR

datatype message =
    Executed string real
  | Failed string real exn
  | AttemptFailed string int exn real
  | GaveUp string int exn
  | CacheHit string
  | CachedResult string

datatype event = Invoked string | Slept real | Logged level message

text \<open>An entry of the module-level \<^verbatim>\<open>_cache\<close>: key, value and expiry time.\<close>

record 'v link =
  lkey :: string
  lvalue :: 'v
  expires :: real

text \<open>
  The state the program runs in: \<open>world\<close> is everything the decorated functions read and
  write, \<open>clock\<close> the reading of the system clock in seconds, \<open>cache\<close> the entries of
  \<^verbatim>\<open>_cache\<close> from least to most recently used, \<open>events\<close> the trace so far. Times and
  delays are real numbers: the rounding and the range of Python's floats are not
  modelled. The clock moves while a function body runs, while a call sleeps and between
  calls; the steps of the decorators themselves take no time.
\<close>

record ('w, 'x) sys =
  world :: 'w
  clock :: real
  cache :: "'x pyval link list"
  events :: "event list"

type_synonym ('w, 'x) callable =
  "'x pyval list \<Rightarrow> (string \<times> 'x pyval) list \<Rightarrow> ('w, 'x) sys \<Rightarrow> 'x pyval outcome \<times> ('w, 'x) sys"

text \<open>
  A function object: its \<^verbatim>\<open>__name__\<close> and what a call with positional arguments
  \<open>args\<close> and keyword arguments \<open>kwargs\<close> (in the order written at the call) does.
  Every decorator below is built with \<^verbatim>\<open>functools.wraps\<close>, so it keeps the name.
\<close>

record ('w, 'x) pyfunc =
  func_name :: string
  func_call :: "('w, 'x) callable"

text \<open>
  An undecorated function: its body reads and writes the world only, returns or raises,
  and takes some seconds to run. Each call leaves an \<open>Invoked\<close> event.
\<close>

type_synonym ('w, 'x) body =
  "'x pyval list \<Rightarrow> (string \<times> 'x pyval) list \<Rightarrow> 'w \<Rightarrow> 'x pyval outcome \<times> 'w \<times> real"

definition py_def :: "string \<Rightarrow> ('w, 'x) body \<Rightarrow> ('w, 'x) pyfunc" where
  "py_def nm body =
     \<lparr>func_name = nm,
      func_call = (\<lambda>args kwargs s.
        case body args kwargs (world s) of
          (r, w', dt) \<Rightarrow>
            (r, s\<lparr>world := w', clock := clock s + dt, events := events s @ [Invoked nm]\<rparr>))\<rparr>"

definition logger :: "level \<Rightarrow> message \<Rightarrow> ('w, 'x) sys \<Rightarrow> ('w, 'x) sys" where
  "logger lv m s = s\<lparr>events := events s @ [Logged lv m]\<rparr>"






section \<open>retry and retry_async\<close>







section \<open>monitor_performance and monitor_performance_async\<close>

definition monitor_performance :: "('w, 'x) pyfunc \<Rightarrow> ('w, 'x) pyfunc" where
  "monitor_performance func =
     \<lparr>func_name = func_name func,
      func_call = (\<lambda>args kwargs s.
        let start_time = clock s in
        case func_call func args kwargs s of
          (Return result, s1) \<Rightarrow>
            (let execution_time = clock s1 - start_time
             in (Return result, logger DEBUG (Executed (func_name func) execution_time) s1))
        | (Raise e, s1) \<Rightarrow>
            if isinstance e Exception then
              (let execution_time = clock s1 - start_time
               in (Raise e, logger ERROR (Failed (func_name func) execution_time e) s1))
            else (Raise e, s1))\<rparr>"

definition monitor_performance_async :: "('w, 'x) pyfunc \<Rightarrow> ('w, 'x) pyfunc" where
  "monitor_performance_async func =
     \<lparr>func_name = func_name func,
      func_call = (\<lambda>args kwargs s.
        let start_time = clock s in
        case func_call func args kwargs s of
          (Return result, s1) \<Rightarrow>
            (let execution_time = clock s1 - start_time
             in (Return result, logger DEBUG (Executed (func_name func) execution_time) s1))
        | (Raise e, s1) \<Rightarrow>
            if isinstance e Exception then
              (let execution_time = clock s1 - start_time
               in (Raise e, logger ERROR (Failed (func_name func) execution_time e) s1))
            else (Raise e, s1))\<rparr>"

section \<open>The module-level cache\<close>

text \<open>
  \<^verbatim>\<open>_cache = TTLCache(maxsize=1000, ttl=300)\<close>: the two arguments of the constructor call
  in \<^verbatim>\<open>decorators.py\<close>.
\<close>

definition cache_maxsize :: nat where
  "cache_maxsize = 1000"

definition cache_ttl :: real where
  "cache_ttl = 300"

text \<open>
  Modelled from the spec: \<^verbatim>\<open>TTLCache\<close> is a class of the \<^verbatim>\<open>cachetools\<close> library,
  which is not part of the repository. Its operations follow the spec's CacheStore: an
  entry is live while \<open>now < insertion time + ttl\<close>, an expired entry is the same as an
  absent one, and at capacity the least recently used entries make room. The entries are
  kept from least to most recently used, and every value counts as one towards
  \<open>maxsize\<close>. \<open>cache_lookup\<close> finds the entry stored under a key, live or not.
\<close>

definition cache_lookup :: "'v link list \<Rightarrow> string \<Rightarrow> 'v link option" where
  "cache_lookup c key = find (\<lambda>l. lkey l = key) c"

text \<open>
  Modelled from the spec: \<^verbatim>\<open>key in _cache\<close> at clock reading \<open>now\<close>, true for a live
  entry only.
\<close>

definition cache_contains :: "'v link list \<Rightarrow> string \<Rightarrow> real \<Rightarrow> bool" where
  "cache_contains c key now =
     (case cache_lookup c key of None \<Rightarrow> False | Some l \<Rightarrow> now < expires l)"

text \<open>
  Modelled from the spec: \<^verbatim>\<open>_cache[key]\<close>, the value and the cache with the entry moved
  to the most recently used end, or \<open>KeyError\<close> for an absent or expired key.
\<close>

definition cache_getitem :: "'v link list \<Rightarrow> string \<Rightarrow> real \<Rightarrow> exn + ('v \<times> 'v link list)" where
  "cache_getitem c key now =
     (case cache_lookup c key of
        None \<Rightarrow> Inl \<lparr>cls = KeyError, msg = key\<rparr>
      | Some l \<Rightarrow>
          if now < expires l then Inr (lvalue l, filter (\<lambda>l'. lkey l' \<noteq> key) c @ [l])
          else Inl \<lparr>cls = KeyError, msg = key\<rparr>)"

text \<open>Modelled from the spec: the removal of the entries that have expired by \<open>now\<close>.\<close>

definition cache_expire :: "'v link list \<Rightarrow> real \<Rightarrow> 'v link list" where
  "cache_expire c now = filter (\<lambda>l. now < expires l) c"

text \<open>
  Modelled from the spec: \<^verbatim>\<open>_cache[key] = value\<close>. Expired entries go first, then (for
  a new key) the least recently used ones until there is room, and the entry is written
  at the most recently used end with expiry \<open>now + cache_ttl\<close>.
\<close>

definition cache_setitem :: "'v link list \<Rightarrow> string \<Rightarrow> 'v \<Rightarrow> real \<Rightarrow> 'v link list" where
  "cache_setitem c key v now =
     (let live = cache_expire c now;
          kept = (if key \<in> lkey ` set live then live
                  else drop (length live + 1 - cache_maxsize) live)
      in filter (\<lambda>l. lkey l \<noteq> key) kept @ [\<lparr>lkey = key, lvalue = v, expires = now + cache_ttl\<rparr>])"

section \<open>cache_result\<close>

text \<open>
  The built-in and library functions that the decorators call on values: \<^verbatim>\<open>str\<close> of the
  tuple of positional arguments, \<^verbatim>\<open>str\<close> of a list of (name, value) pairs, \<^verbatim>\<open>str\<close> of
  a list of column names, \<^verbatim>\<open>json.dumps(d, sort_keys=True)\<close> of a dictionary of strings
  (given as its items), and \<^verbatim>\<open>hashlib.md5(...).hexdigest()\<close>. They are parameters of the
  model: the theorems hold for every choice of them.
\<close>

record 'x pylib =
  str_args :: "'x pyval list \<Rightarrow> string"
  str_items :: "(string \<times> 'x pyval) list \<Rightarrow> string"
  str_names :: "string list \<Rightarrow> string"
  json_dumps :: "(string \<times> string) list \<Rightarrow> string"
  md5_hexdigest :: "string \<Rightarrow> string"

text \<open>
  \<^verbatim>\<open>sorted(kwargs.items())\<close> orders the pairs by name: the names of one call are
  distinct, so the comparison of two pairs never reaches the values.
\<close>

definition cache_key ::
  "'x pylib \<Rightarrow> string \<Rightarrow> 'x pyval list \<Rightarrow> (string \<times> 'x pyval) list \<Rightarrow> string" where
  "cache_key L nm args kwargs =
     (let cache_data =
        [(''func'', nm),
         (''args'', str_args L args),
         (''kwargs'', str_items L (sort_key fst kwargs))]
      in md5_hexdigest L (json_dumps L cache_data))"

text \<open>The parameter \<open>ttl_seconds\<close> is not used in the body, as in the source.\<close>

definition cache_result :: "int \<Rightarrow> 'x pylib \<Rightarrow> ('w, 'x) pyfunc \<Rightarrow> ('w, 'x) pyfunc" where
  "cache_result ttl_seconds L func =
     \<lparr>func_name = func_name func,
      func_call = (\<lambda>args kwargs s.
        let key = cache_key L (func_name func) args kwargs in
        if cache_contains (cache s) key (clock s) then
          (let s1 = logger DEBUG (CacheHit (func_name func)) s
           in case cache_getitem (cache s1) key (clock s1) of
                Inl err \<Rightarrow> (Raise err, s1)
              | Inr (v, c') \<Rightarrow> (Return v, s1\<lparr>cache := c'\<rparr>))
        else
          (case func_call func args kwargs s of
             (Raise e, s1) \<Rightarrow> (Raise e, s1)
           | (Return result, s1) \<Rightarrow>
               (Return result,
                logger DEBUG (CachedResult (func_name func))
                  (s1\<lparr>cache := cache_setitem (cache s1) key result (clock s1)\<rparr>))))\<rparr>"

section \<open>validate_data\<close>

text \<open>\<^verbatim>\<open>str\<close> of an integer, as the f-strings format \<^verbatim>\<open>len(df)\<close> and \<^verbatim>\<open>min_rows\<close>.\<close>

fun str_nat :: "nat \<Rightarrow> string" where
  "str_nat n =
     (if n < 10 then [''0123456789'' ! n]
      else str_nat (n div 10) @ [''0123456789'' ! (n mod 10)])"

declare str_nat.simps [simp del]

definition str_int :: "int \<Rightarrow> string" where
  "str_int i = (if i < 0 then CHR ''-'' # str_nat (nat (- i)) else str_nat (nat i))"

text \<open>
  The first tabular value among the positional arguments, else among the values of the
  keyword arguments.
\<close>

definition find_frame :: "'x pyval list \<Rightarrow> (string \<times> 'x pyval) list \<Rightarrow> 'x pyval option" where
  "find_frame args kwargs =
     (case find is_Table args of
        Some df \<Rightarrow> Some df
      | None \<Rightarrow> find is_Table (map snd kwargs))"

definition validate_data ::
  "string list option \<Rightarrow> int \<Rightarrow> 'x pylib \<Rightarrow> ('w, 'x) pyfunc \<Rightarrow> ('w, 'x) pyfunc" where
  "validate_data required_columns min_rows L func =
     \<lparr>func_name = func_name func,
      func_call = (\<lambda>args kwargs s.
        case find_frame args kwargs of
          None \<Rightarrow> func_call func args kwargs s
        | Some df \<Rightarrow>
            if int (trows df) < min_rows then
              (Raise \<lparr>cls = ValueError,
                      msg = ''DataFrame has '' @ str_int (int (trows df)) @
                            '' rows, need at least '' @ str_int min_rows\<rparr>, s)
            else
              (case required_columns of
                 None \<Rightarrow> func_call func args kwargs s
               | Some cols \<Rightarrow>
                   if cols = [] then func_call func args kwargs s
                   else
                     (let missing_cols = filter (\<lambda>col. col \<notin> set (tcolumns df)) cols
                      in if missing_cols \<noteq> [] then
                           (Raise \<lparr>cls = ValueError,
                                   msg = ''Missing required columns: '' @ str_names L missing_cols\<rparr>, s)
                         else func_call func args kwargs s)))\<rparr>"

section \<open>Reading a run\<close>


fun calls :: "event list \<Rightarrow> nat" where
  "calls [] = 0"
| "calls (Invoked _ # evs) = Suc (calls evs)"
| "calls (_ # evs) = calls evs"

fun waits :: "event list \<Rightarrow> real list" where
  "waits [] = []"
| "waits (Slept d # evs) = d # waits evs"
| "waits (_ # evs) = waits evs"


text \<open>The records of the timing decorators: one kind for success, one for failure.\<close>

fun success_record :: "event \<Rightarrow> bool" where
  "success_record (Logged DEBUG (Executed _ _)) = True"
| "success_record _ = False"

fun failure_record :: "event \<Rightarrow> bool" where
  "failure_record (Logged ERROR (Failed _ _ _)) = True"
| "failure_record _ = False"

text \<open>Time going by between two calls.\<close>

definition time_passes :: "real \<Rightarrow> ('w, 'x) sys \<Rightarrow> ('w, 'x) sys" where
  "time_passes dt s = s\<lparr>clock := clock s + dt\<rparr>"




text \<open>An outcome that \<^verbatim>\<open>except Exception\<close> catches.\<close>

fun caught :: "'v outcome \<Rightarrow> bool" where
  "caught (Return r) = False"
| "caught (Raise e) = isinstance e Exception"



section \<open>Sample inputs\<close>

text \<open>
  A state before any call, in a world that counts the calls made so far; a body that
  fails with a message telling the calls apart; a body that returns the count.
\<close>

definition fresh :: "(nat, int) sys" where
  "fresh = \<lparr>world = 0, clock = 0, cache = [], events = []\<rparr>"

definition failing_body :: "(nat, int) body" where
  "failing_body args kwargs w =
     (Raise \<lparr>cls = ValueError, msg = ''failure '' @ str_nat (Suc w)\<rparr>, Suc w, 1)"

definition counting_body :: "(nat, int) body" where
  "counting_body args kwargs w = (Return (Obj (int w)), Suc w, 1)"


definition interrupted_body :: "(nat, int) body" where
  "interrupted_body args kwargs w = (Raise \<lparr>cls = KeyboardInterrupt, msg = []\<rparr>, Suc w, 1)"

definition other_body :: "(nat, int) body" where
  "other_body args kwargs w = (Return (Obj (- 1)), Suc w, 1)"

text \<open>
  One choice of the library functions, right for integers and for names without quotes
  or escapes; the digest is left out, so a key is the serialised text itself.
\<close>

fun join :: "string \<Rightarrow> string list \<Rightarrow> string" where
  "join sep [] = []"
| "join sep [x] = x"
| "join sep (x # y # ys) = x @ sep @ join sep (y # ys)"

definition quoted :: "string \<Rightarrow> string" where
  "quoted x = [CHR 0x27] @ x @ [CHR 0x27]"

fun repr_val :: "int pyval \<Rightarrow> string" where
  "repr_val (Obj i) = str_int i"
| "repr_val (Table cols n) = ''<Table '' @ str_nat n @ ''>''"

definition sample_lib :: "int pylib" where
  "sample_lib =
     \<lparr>str_args = (\<lambda>args. ''('' @ join '', '' (map repr_val args) @ (if length args = 1 then '',)'' else '')'')),
      str_items = (\<lambda>items.
        ''['' @ join '', '' (map (\<lambda>(k, v). ''('' @ quoted k @ '', '' @ repr_val v @ '')'') items) @ '']''),
      str_names = (\<lambda>names. ''['' @ join '', '' (map quoted names) @ '']''),
      json_dumps = (\<lambda>items.
        ''{'' @ join '', '' (map (\<lambda>(k, v). ''\"'' @ k @ ''\": \"'' @ v @ ''\"'') (sort_key fst items)) @ ''}''),
      md5_hexdigest = (\<lambda>x. x)\<rparr>"

section \<open>Exceptions: the hierarchy is complete\<close>

lemma mro_reaches_root: "base (last (mro c)) = None"
  by (cases c) (simp_all add: mro_def numeral_eq_Suc)

section \<open>Traces\<close>

lemma waits_append: "waits (xs @ ys) = waits xs @ waits ys"
  by (induction xs rule: waits.induct) simp_all

lemma calls_append: "calls (xs @ ys) = calls xs + calls ys"
  by (induction xs rule: calls.induct) simp_all







section \<open>Calls, attempts and sleeps\<close>

lemma py_def_call:
  "func_call (py_def nm body) a k s =
     (case body a k (world s) of
        (r, w', dt) \<Rightarrow>
          (r, s\<lparr>world := w', clock := clock s + dt, events := events s @ [Invoked nm]\<rparr>))"
  by (simp add: py_def_def)

lemma py_def_name: "func_name (py_def nm body) = nm"
  by (simp add: py_def_def)














section \<open>retry and retry_async: all attempts fail\<close>





section \<open>The sample inputs\<close>

lemma str_nat_digit: "n < 10 \<Longrightarrow> str_nat n = [''0123456789'' ! n]"
  by (simp add: str_nat.simps)

lemma ValueError_is_Exception: "isinstance \<lparr>cls = ValueError, msg = m\<rparr> Exception"
  by (simp add: isinstance_def issubclass_def mro_def numeral_eq_Suc)



lemma counting_call:
  "func_call (py_def nm counting_body) a k s =
     (Return (Obj (int (world s))),
      s\<lparr>world := Suc (world s), clock := clock s + 1, events := events s @ [Invoked nm]\<rparr>)"
  by (simp add: py_def_call counting_body_def)

lemma failing_call:
  "func_call (py_def nm failing_body) a k s =
     (Raise \<lparr>cls = ValueError, msg = ''failure '' @ str_nat (Suc (world s))\<rparr>,
      s\<lparr>world := Suc (world s), clock := clock s + 1, events := events s @ [Invoked nm]\<rparr>)"
  by (simp add: py_def_call failing_body_def)






section \<open>retry: attempts and the final error\<close>




section \<open>retry and retry_async: the waits\<close>





section \<open>retry: the class of the surfaced error\<close>




section \<open>retry: where the outcome comes from\<close>





section \<open>monitor_performance: one record for each call\<close>

text \<open>
  Claim C6, amended. For every call of a timing-wrapped operation that returns, or raises
  an exception that \<^verbatim>\<open>except Exception\<close> catches, the wrapper adds exactly one record
  to what the operation itself left in the trace: a success record when the operation
  returns, a failure record when it raises. When the operation raises an exception outside
  \<open>Exception\<close> (\<open>KeyboardInterrupt\<close>, \<open>SystemExit\<close>, a cancelled coroutine), the wrapper
  adds no record. In every case the result or the exception object is handed on as it is
  and nothing else in the state changes. The same holds for
  \<^verbatim>\<open>monitor_performance_async\<close>.
\<close>

theorem monitor_performance_one_record:
  assumes "func_call f args kwargs s = (res, s1)"
  shows
    "if (\<exists>r. res = Return r) \<or> caught res then
       (\<exists>rec. func_call (monitor_performance f) args kwargs s =
                (res, s1\<lparr>events := events s1 @ [rec]\<rparr>) \<and>
              success_record rec = (\<exists>r. res = Return r) \<and>
              failure_record rec = (\<exists>e. res = Raise e)) \<and>
       (\<exists>rec. func_call (monitor_performance_async f) args kwargs s =
                (res, s1\<lparr>events := events s1 @ [rec]\<rparr>) \<and>
              success_record rec = (\<exists>r. res = Return r) \<and>
              failure_record rec = (\<exists>e. res = Raise e))
     else
       func_call (monitor_performance f) args kwargs s = (res, s1) \<and>
       func_call (monitor_performance_async f) args kwargs s = (res, s1)"
proof (cases res)
  case (Return r)
  let ?rec = "Logged DEBUG (Executed (func_name f) (clock s1 - clock s))"
  have "func_call (monitor_performance f) args kwargs s = (res, s1\<lparr>events := events s1 @ [?rec]\<rparr>)"
    and "func_call (monitor_performance_async f) args kwargs s = (res, s1\<lparr>events := events s1 @ [?rec]\<rparr>)"
    using assms(1) Return
    by (simp_all add: monitor_performance_def monitor_performance_async_def logger_def)
  moreover have "success_record ?rec = (\<exists>r. res = Return r)"
    and "failure_record ?rec = (\<exists>e. res = Raise e)"
    using Return by simp_all
  ultimately have "(\<exists>rec. func_call (monitor_performance f) args kwargs s =
                (res, s1\<lparr>events := events s1 @ [rec]\<rparr>) \<and>
              success_record rec = (\<exists>r. res = Return r) \<and>
              failure_record rec = (\<exists>e. res = Raise e)) \<and>
       (\<exists>rec. func_call (monitor_performance_async f) args kwargs s =
                (res, s1\<lparr>events := events s1 @ [rec]\<rparr>) \<and>
              success_record rec = (\<exists>r. res = Return r) \<and>
              failure_record rec = (\<exists>e. res = Raise e))"
    by blast
  then show ?thesis using Return by simp
next
  case (Raise e)
  show ?thesis
  proof (cases "isinstance e Exception")
    case True
    let ?rec = "Logged ERROR (Failed (func_name f) (clock s1 - clock s) e)"
    have "func_call (monitor_performance f) args kwargs s = (res, s1\<lparr>events := events s1 @ [?rec]\<rparr>)"
      and "func_call (monitor_performance_async f) args kwargs s = (res, s1\<lparr>events := events s1 @ [?rec]\<rparr>)"
      using assms(1) Raise True
      by (simp_all add: monitor_performance_def monitor_performance_async_def logger_def)
    moreover have "success_record ?rec = (\<exists>r. res = Return r)"
      and "failure_record ?rec = (\<exists>e. res = Raise e)"
      using Raise by simp_all
    ultimately have "(\<exists>rec. func_call (monitor_performance f) args kwargs s =
                (res, s1\<lparr>events := events s1 @ [rec]\<rparr>) \<and>
              success_record rec = (\<exists>r. res = Return r) \<and>
              failure_record rec = (\<exists>e. res = Raise e)) \<and>
       (\<exists>rec. func_call (monitor_performance_async f) args kwargs s =
                (res, s1\<lparr>events := events s1 @ [rec]\<rparr>) \<and>
              success_record rec = (\<exists>r. res = Return r) \<and>
              failure_record rec = (\<exists>e. res = Raise e))"
      by blast
    then show ?thesis using Raise True by simp
  next
    case False
    then show ?thesis
      using assms(1) Raise
      by (simp add: monitor_performance_def monitor_performance_async_def)
  qed
qed

lemma interrupted_call:
  "func_call (py_def nm interrupted_body) a k s =
     (Raise \<lparr>cls = KeyboardInterrupt, msg = []\<rparr>,
      s\<lparr>world := Suc (world s), clock := clock s + 1, events := events s @ [Invoked nm]\<rparr>)"
  by (simp add: py_def_call interrupted_body_def)

lemma KeyboardInterrupt_not_Exception: "\<not> isinstance \<lparr>cls = KeyboardInterrupt, msg = m\<rparr> Exception"
  by (simp add: isinstance_def issubclass_def mro_def numeral_eq_Suc)

text \<open>
  A call that returns under the timing wrapper, a call that fails under the async one,
  and a call that is interrupted.
\<close>

theorem monitor_performance_one_record_witness:
  "func_call (py_def ''op'' counting_body) [] [] fresh =
     (Return (Obj 0), \<lparr>world = 1, clock = 1, cache = [], events = [Invoked ''op'']\<rparr>) \<and>
   (\<exists>rec. func_call (monitor_performance (py_def ''op'' counting_body)) [] [] fresh =
      (Return (Obj 0), \<lparr>world = 1, clock = 1, cache = [], events = [Invoked ''op'', rec]\<rparr>) \<and>
      success_record rec \<and> \<not> failure_record rec) \<and>
   func_call (py_def ''op'' failing_body) [] [] fresh =
     (Raise \<lparr>cls = ValueError, msg = ''failure 1''\<rparr>,
      \<lparr>world = 1, clock = 1, cache = [], events = [Invoked ''op'']\<rparr>) \<and>
   (\<exists>rec. func_call (monitor_performance_async (py_def ''op'' failing_body)) [] [] fresh =
      (Raise \<lparr>cls = ValueError, msg = ''failure 1''\<rparr>,
       \<lparr>world = 1, clock = 1, cache = [], events = [Invoked ''op'', rec]\<rparr>) \<and>
      failure_record rec \<and> \<not> success_record rec) \<and>
   func_call (py_def ''op'' interrupted_body) [] [] fresh =
     (Raise \<lparr>cls = KeyboardInterrupt, msg = []\<rparr>,
      \<lparr>world = 1, clock = 1, cache = [], events = [Invoked ''op'']\<rparr>) \<and>
   func_call (monitor_performance_async (py_def ''op'' interrupted_body)) [] [] fresh =
     (Raise \<lparr>cls = KeyboardInterrupt, msg = []\<rparr>,
      \<lparr>world = 1, clock = 1, cache = [], events = [Invoked ''op'']\<rparr>)"
proof -
  have a: "func_call (py_def ''op'' counting_body) [] [] fresh =
     (Return (Obj 0), \<lparr>world = 1, clock = 1, cache = [], events = [Invoked ''op'']\<rparr>)"
    by (simp add: counting_call fresh_def)
  have b: "func_call (py_def ''op'' failing_body) [] [] fresh =
     (Raise \<lparr>cls = ValueError, msg = ''failure 1''\<rparr>,
      \<lparr>world = 1, clock = 1, cache = [], events = [Invoked ''op'']\<rparr>)"
    by (simp add: failing_call fresh_def str_nat_digit)
  have c: "func_call (py_def ''op'' interrupted_body) [] [] fresh =
     (Raise \<lparr>cls = KeyboardInterrupt, msg = []\<rparr>,
      \<lparr>world = 1, clock = 1, cache = [], events = [Invoked ''op'']\<rparr>)"
    by (simp add: interrupted_call fresh_def)
  from monitor_performance_one_record [OF a] have ta:
    "\<exists>rec. func_call (monitor_performance (py_def ''op'' counting_body)) [] [] fresh =
      (Return (Obj 0), \<lparr>world = 1, clock = 1, cache = [], events = [Invoked ''op'', rec]\<rparr>) \<and>
      success_record rec \<and> \<not> failure_record rec"
    by simp
  from monitor_performance_one_record [OF b] have tb:
    "\<exists>rec. func_call (monitor_performance_async (py_def ''op'' failing_body)) [] [] fresh =
      (Raise \<lparr>cls = ValueError, msg = ''failure 1''\<rparr>,
       \<lparr>world = 1, clock = 1, cache = [], events = [Invoked ''op'', rec]\<rparr>) \<and>
      failure_record rec \<and> \<not> success_record rec"
    by (auto simp: ValueError_is_Exception)
  from monitor_performance_one_record [OF c] have tc:
    "func_call (monitor_performance_async (py_def ''op'' interrupted_body)) [] [] fresh =
     (Raise \<lparr>cls = KeyboardInterrupt, msg = []\<rparr>,
      \<lparr>world = 1, clock = 1, cache = [], events = [Invoked ''op'']\<rparr>)"
    by (simp add: KeyboardInterrupt_not_Exception)
  show ?thesis using a b c ta tb tc by blast
qed

text \<open>
  Claim C6 as stated fails: an operation that raises \<open>KeyboardInterrupt\<close> goes through
  both wrappers with no record at all. The trace holds the call of the operation and
  nothing else.
\<close>

theorem monitor_performance_interrupt_no_record:
  "func_call (monitor_performance (py_def ''op'' interrupted_body)) [] [] fresh =
     (Raise \<lparr>cls = KeyboardInterrupt, msg = []\<rparr>,
      \<lparr>world = 1, clock = 1, cache = [], events = [Invoked ''op'']\<rparr>) \<and>
   func_call (monitor_performance_async (py_def ''op'' interrupted_body)) [] [] fresh =
     (Raise \<lparr>cls = KeyboardInterrupt, msg = []\<rparr>,
      \<lparr>world = 1, clock = 1, cache = [], events = [Invoked ''op'']\<rparr>)"
  by (simp add: monitor_performance_def monitor_performance_async_def interrupted_call
      KeyboardInterrupt_not_Exception fresh_def)

section \<open>validate_data: failing before the call\<close>

text \<open>
  Claim C3, amended. Whenever the located tabular argument has fewer than \<open>min_rows\<close> rows
  or lacks some required column, the wrapper raises a \<open>ValueError\<close> (not a
  \<open>DataValidationError\<close>) before the wrapped operation is invoked, and leaves the state
  untouched. The row count is checked first: when it is too small the message gives the
  actual and the required number of rows and nothing about columns; otherwise the message
  lists the required columns that are missing.
\<close>

theorem validate_data_fails_fast:
  assumes "find_frame args kwargs = Some df"
    and "int (trows df) < min_rows \<or>
         (\<exists>cols. required_columns = Some cols \<and> \<not> set cols \<subseteq> set (tcolumns df))"
  shows "func_call (validate_data required_columns min_rows L func) args kwargs s =
     (Raise \<lparr>cls = ValueError,
             msg = (if int (trows df) < min_rows
                    then ''DataFrame has '' @ str_int (int (trows df)) @
                         '' rows, need at least '' @ str_int min_rows
                    else ''Missing required columns: '' @
                         str_names L (filter (\<lambda>col. col \<notin> set (tcolumns df))
                           (case required_columns of None \<Rightarrow> [] | Some cols \<Rightarrow> cols)))\<rparr>,
      s)"
proof (cases "int (trows df) < min_rows")
  case True
  then show ?thesis
    using assms(1) by (simp add: validate_data_def)
next
  case False
  with assms(2) obtain cols where
    req: "required_columns = Some cols" and miss: "\<not> set cols \<subseteq> set (tcolumns df)"
    by blast
  from miss have ne: "cols \<noteq> []" by auto
  from miss have f: "filter (\<lambda>col. col \<notin> set (tcolumns df)) cols \<noteq> []"
    by (auto simp: filter_empty_conv)
  show ?thesis
    using assms(1) False req ne f by (simp add: validate_data_def Let_def)
qed

lemma str_nat_3: "str_nat 3 = ''3''" and str_nat_5: "str_nat 5 = ''5''"
  by (simp_all add: str_nat_digit)

text \<open>
  Claim C3 as stated fails on its own example: three rows, columns A and B, required
  columns A and C, \<open>min_rows = 5\<close>. The operation is not invoked, but the error is a
  \<open>ValueError\<close> and its message speaks of the rows only, not of column C.
\<close>

theorem validate_data_not_validation_error:
  "func_call (validate_data (Some [''A'', ''C'']) 5 sample_lib (py_def ''op'' counting_body))
     [Table [''A'', ''B''] 3] [] fresh =
     (Raise \<lparr>cls = ValueError, msg = ''DataFrame has 3 rows, need at least 5''\<rparr>, fresh) \<and>
   \<not> isinstance \<lparr>cls = ValueError, msg = ''DataFrame has 3 rows, need at least 5''\<rparr> DataValidationError \<and>
   CHR ''C'' \<notin> set ''DataFrame has 3 rows, need at least 5''"
proof -
  have "func_call (validate_data (Some [''A'', ''C'']) 5 sample_lib (py_def ''op'' counting_body))
     [Table [''A'', ''B''] 3] [] fresh =
     (Raise \<lparr>cls = ValueError, msg = ''DataFrame has 3 rows, need at least 5''\<rparr>, fresh)"
    by (simp add: validate_data_def find_frame_def str_int_def str_nat_3 str_nat_5)
  moreover have "\<not> isinstance \<lparr>cls = ValueError, msg = ''DataFrame has 3 rows, need at least 5''\<rparr>
      DataValidationError"
    by (simp add: isinstance_def issubclass_def mro_def numeral_eq_Suc)
  moreover have "CHR ''C'' \<notin> set ''DataFrame has 3 rows, need at least 5''"
    by simp
  ultimately show ?thesis by blast
qed

text \<open>
  The example of the claim, and a table with enough rows passed by keyword that lacks
  column C.
\<close>

theorem validate_data_fails_fast_witness:
  "find_frame [Table [''A'', ''B''] 3] [] = Some (Table [''A'', ''B''] 3 :: int pyval) \<and>
   int (trows (Table [''A'', ''B''] 3 :: int pyval)) < 5 \<and>
   func_call (validate_data (Some [''A'', ''C'']) 5 sample_lib (py_def ''op'' counting_body))
     [Table [''A'', ''B''] 3] [] fresh =
     (Raise \<lparr>cls = ValueError, msg = ''DataFrame has 3 rows, need at least 5''\<rparr>, fresh) \<and>
   find_frame [Obj 1] [(''df'', Table [''A'', ''B''] 7)] = Some (Table [''A'', ''B''] 7 :: int pyval) \<and>
   \<not> set [''A'', ''C''] \<subseteq> set (tcolumns (Table [''A'', ''B''] 7 :: int pyval)) \<and>
   func_call (validate_data (Some [''A'', ''C'']) 5 sample_lib (py_def ''op'' counting_body))
     [Obj 1] [(''df'', Table [''A'', ''B''] 7)] fresh =
     (Raise \<lparr>cls = ValueError, msg = ''Missing required columns: [''@ [CHR 0x27] @ ''C'' @ [CHR 0x27] @ '']''\<rparr>, fresh)"
proof -
  have a1: "find_frame [Table [''A'', ''B''] 3] [] = Some (Table [''A'', ''B''] 3 :: int pyval)"
    by (simp add: find_frame_def)
  have a2: "int (trows (Table [''A'', ''B''] 3 :: int pyval)) < 5" by simp
  have b1: "find_frame [Obj 1] [(''df'', Table [''A'', ''B''] 7)] = Some (Table [''A'', ''B''] 7 :: int pyval)"
    by (simp add: find_frame_def)
  have b2: "\<not> set [''A'', ''C''] \<subseteq> set (tcolumns (Table [''A'', ''B''] 7 :: int pyval))" by simp
  have a2': "int (trows (Table [''A'', ''B''] 3 :: int pyval)) < 5 \<or>
      (\<exists>cols. Some [''A'', ''C''] = Some cols \<and> \<not> set cols \<subseteq> set (tcolumns (Table [''A'', ''B''] 3 :: int pyval)))"
    using a2 by blast
  have b2': "int (trows (Table [''A'', ''B''] 7 :: int pyval)) < 5 \<or>
      (\<exists>cols. Some [''A'', ''C''] = Some cols \<and> \<not> set cols \<subseteq> set (tcolumns (Table [''A'', ''B''] 7 :: int pyval)))"
    using b2 by blast
  note ta = validate_data_fails_fast [OF a1 a2', where L = sample_lib and func = "py_def ''op'' counting_body" and s = fresh]
  note tb = validate_data_fails_fast [OF b1 b2', where L = sample_lib and func = "py_def ''op'' counting_body" and s = fresh]
  have ca: "func_call (validate_data (Some [''A'', ''C'']) 5 sample_lib (py_def ''op'' counting_body))
     [Table [''A'', ''B''] 3] [] fresh =
     (Raise \<lparr>cls = ValueError, msg = ''DataFrame has 3 rows, need at least 5''\<rparr>, fresh)"
    using ta by (simp add: str_int_def str_nat_3 str_nat_5)
  have cb: "func_call (validate_data (Some [''A'', ''C'']) 5 sample_lib (py_def ''op'' counting_body))
     [Obj 1] [(''df'', Table [''A'', ''B''] 7)] fresh =
     (Raise \<lparr>cls = ValueError, msg = ''Missing required columns: [''@ [CHR 0x27] @ ''C'' @ [CHR 0x27] @ '']''\<rparr>, fresh)"
    using tb by (simp add: sample_lib_def quoted_def)
  show ?thesis using a1 a2 b1 b2 ca cb by blast
qed

section \<open>The cache: storing and finding an entry\<close>

lemma find_filter_none: "find P (filter (\<lambda>x. \<not> P x) xs) = None"
  by (induction xs) simp_all

lemma find_append_miss: "find P xs = None \<Longrightarrow> find P (xs @ ys) = find P ys"
  by (induction xs) (simp_all split: if_splits)

lemma cache_lookup_setitem:
  "cache_lookup (cache_setitem c key v now) key =
     Some \<lparr>lkey = key, lvalue = v, expires = now + cache_ttl\<rparr>"
  by (simp add: cache_lookup_def cache_setitem_def Let_def find_append_miss find_filter_none)

lemma cache_contains_setitem:
  "cache_contains (cache_setitem c key v now) key t = (t < now + cache_ttl)"
  by (simp add: cache_contains_def cache_lookup_setitem)

lemma cache_getitem_setitem:
  "t < now + cache_ttl \<Longrightarrow>
   cache_getitem (cache_setitem c key v now) key t = Inr (v, cache_setitem c key v now)"
  by (simp add: cache_getitem_def cache_lookup_setitem) (simp add: cache_setitem_def Let_def)

lemma cache_result_call:
  "func_call (cache_result T L f) a k s =
     (let key = cache_key L (func_name f) a k in
      if cache_contains (cache s) key (clock s) then
        (let s1 = logger DEBUG (CacheHit (func_name f)) s
         in case cache_getitem (cache s1) key (clock s1) of
              Inl err \<Rightarrow> (Raise err, s1)
            | Inr (v, c') \<Rightarrow> (Return v, s1\<lparr>cache := c'\<rparr>))
      else
        (case func_call f a k s of
           (Raise e, s1) \<Rightarrow> (Raise e, s1)
         | (Return result, s1) \<Rightarrow>
             (Return result,
              logger DEBUG (CachedResult (func_name f))
                (s1\<lparr>cache := cache_setitem (cache s1) key result (clock s1)\<rparr>))))"
  by (simp add: cache_result_def)

text \<open>A miss on a plain function that returns: the result is stored at the end of the call.\<close>

lemma cache_result_miss_return:
  assumes "\<not> cache_contains (cache s) (cache_key L nm a k) (clock s)"
    and "body a k (world s) = (Return r, w1, dt)"
  shows "func_call (cache_result T L (py_def nm body)) a k s =
     (Return r,
      \<lparr>world = w1, clock = clock s + dt,
       cache = cache_setitem (cache s) (cache_key L nm a k) r (clock s + dt),
       events = events s @ [Invoked nm, Logged DEBUG (CachedResult nm)]\<rparr>)"
  using assms by (simp add: cache_result_call py_def_call py_def_name logger_def)

lemma cache_result_miss_raise:
  assumes "\<not> cache_contains (cache s) (cache_key L nm a k) (clock s)"
    and "body a k (world s) = (Raise e, w1, dt)"
  shows "func_call (cache_result T L (py_def nm body)) a k s =
     (Raise e,
      \<lparr>world = w1, clock = clock s + dt, cache = cache s, events = events s @ [Invoked nm]\<rparr>)"
  using assms by (simp add: cache_result_call py_def_call py_def_name)

text \<open>A hit on an entry that was just stored: whatever function sits under the wrapper.\<close>

lemma cache_result_hit:
  assumes "cache s = cache_setitem c (cache_key L (func_name f) a k) v now"
    and "clock s < now + cache_ttl"
  shows "func_call (cache_result T L f) a k s =
     (Return v, s\<lparr>events := events s @ [Logged DEBUG (CacheHit (func_name f))]\<rparr>)"
  using assms
  by (simp add: cache_result_call cache_contains_setitem cache_getitem_setitem logger_def)

lemma cache_contains_later:
  "\<not> cache_contains c key t \<Longrightarrow> t \<le> t' \<Longrightarrow> \<not> cache_contains c key t'"
  by (auto simp: cache_contains_def split: option.splits)

lemma cache_contains_empty: "\<not> cache_contains [] key t"
  by (simp add: cache_contains_def cache_lookup_def)

lemma time_passes_simps:
  "world (time_passes dt s) = world s"
  "clock (time_passes dt s) = clock s + dt"
  "cache (time_passes dt s) = cache s"
  "events (time_passes dt s) = events s"
  by (simp_all add: time_passes_def)

section \<open>cache_result: a failing call\<close>

text \<open>
  Claim C7. For every cache-wrapped operation: when a call finds no live entry and the
  operation raises, the exception reaches the caller as raised, the cache is left as it
  was (no entry is stored for the fingerprint), and the next call with the same arguments,
  however much later, invokes the operation again and has its outcome. Time does not run
  backwards: the operation takes \<open>dt \<ge> 0\<close> seconds and the next call comes
  \<open>later \<ge> 0\<close> seconds after the first has ended.
\<close>

theorem cache_result_failure_not_cached:
  assumes "\<not> cache_contains (cache s) (cache_key L nm args kwargs) (clock s)"
    and "body args kwargs (world s) = (Raise e, w1, dt)"
    and "0 \<le> dt" and "0 \<le> later"
  shows
    "(let f = cache_result T L (py_def nm body);
          first = func_call f args kwargs s;
          second = func_call f args kwargs (time_passes later (snd first))
      in fst first = Raise e \<and>
         cache (snd first) = cache s \<and>
         fst second = fst (body args kwargs w1) \<and>
         calls (events (snd second)) = calls (events (snd first)) + 1)"
proof -
  let ?f = "cache_result T L (py_def nm body)"
  let ?s1 = "\<lparr>world = w1, clock = clock s + dt, cache = cache s, events = events s @ [Invoked nm]\<rparr>"
  have first: "func_call ?f args kwargs s = (Raise e, ?s1)"
    by (rule cache_result_miss_raise [where body = body, OF assms(1,2)])
  let ?s1' = "time_passes later ?s1"
  have miss: "\<not> cache_contains (cache ?s1') (cache_key L nm args kwargs) (clock ?s1')"
    using cache_contains_later [OF assms(1), of "clock s + dt + later"] assms(3,4)
    by (simp add: time_passes_simps)
  obtain r2 w2 dt2 where body2: "body args kwargs (world ?s1') = (r2, w2, dt2)"
    by (cases "body args kwargs (world ?s1')")
  have w: "world ?s1' = w1" by (simp add: time_passes_simps)
  have second: "fst (func_call ?f args kwargs ?s1') = r2 \<and>
      calls (events (snd (func_call ?f args kwargs ?s1'))) = calls (events ?s1) + 1"
  proof (cases r2)
    case (Return r)
    from cache_result_miss_return [where body = body and T = T, OF miss body2 [unfolded Return]]
    show ?thesis by (simp add: Return time_passes_simps calls_append)
  next
    case (Raise e2)
    from cache_result_miss_raise [where body = body and T = T, OF miss body2 [unfolded Raise]]
    show ?thesis by (simp add: Raise time_passes_simps calls_append)
  qed
  from body2 w have "fst (body args kwargs w1) = r2" by simp
  with first second show ?thesis
    by (simp add: Let_def)
qed

section \<open>cache_result: the order of keyword arguments\<close>

lemma filter_same_key:
  "distinct (map fst xs) \<Longrightarrow> p \<in> set xs \<Longrightarrow> filter (\<lambda>x. fst p = fst x) xs = [p]"
proof (induction xs)
  case Nil
  then show ?case by simp
next
  case (Cons x xs)
  show ?case
  proof (cases "p = x")
    case True
    have "filter (\<lambda>y. fst x = fst y) xs = []"
      using Cons.prems(1) by (auto simp: filter_empty_conv image_iff)
    with True show ?thesis by simp
  next
    case False
    with Cons.prems have p: "p \<in> set xs" and d: "distinct (map fst xs)" by auto
    from p Cons.prems(1) have "fst p \<noteq> fst x" by (auto simp: image_iff)
    with Cons.IH [OF d p] show ?thesis by simp
  qed
qed

lemma sort_key_permutation:
  assumes d: "distinct (map fst xs)" and m: "mset ys = mset xs"
  shows "sort_key fst ys = sort_key fst xs"
proof (rule properties_for_sort_key)
  show "mset (sort_key fst xs) = mset ys"
    using m by simp
  show "sorted (map fst (sort_key fst xs))"
    by simp
  fix p
  assume "p \<in> set (sort_key fst xs)"
  then have px: "p \<in> set xs" by simp
  have py: "p \<in> set ys" using px m by (metis mset_eq_setD)
  have dy: "distinct (map fst ys)"
    using d m by (metis distinct_map mset_eq_imp_distinct_iff mset_map)
  have ds: "distinct (map fst (sort_key fst xs))"
    using d by (metis mset_eq_imp_distinct_iff mset_map mset_sort)
  have "filter (\<lambda>x. fst p = fst x) (sort_key fst xs) = [p]"
    by (rule filter_same_key [OF ds]) (simp add: px)
  moreover have "filter (\<lambda>x. fst p = fst x) ys = [p]"
    by (rule filter_same_key [OF dy py])
  ultimately show "filter (\<lambda>x. fst p = fst x) (sort_key fst xs) = filter (\<lambda>x. fst p = fst x) ys"
    by simp
qed

text \<open>
  Claim C8. The fingerprint does not depend on the order of the keyword arguments: two
  calls whose keyword arguments are permutations of the same name-value pairs, with the
  same positional arguments, have the same cache key. So when the first call has stored
  its result, the second one, made while the entry is live (less than \<open>cache_ttl\<close>
  seconds after the first has ended), returns that result and does not invoke the
  operation.
\<close>

theorem cache_key_kwargs_order:
  assumes "distinct (map fst kwargs)" and "mset kwargs' = mset kwargs"
    and "\<not> cache_contains (cache s) (cache_key L nm args kwargs) (clock s)"
    and "body args kwargs (world s) = (Return r, w1, dt)"
    and "later < cache_ttl"
  shows
    "cache_key L nm args kwargs' = cache_key L nm args kwargs \<and>
     (let f = cache_result T L (py_def nm body);
          first = func_call f args kwargs s;
          second = func_call f args kwargs' (time_passes later (snd first))
      in fst first = Return r \<and>
         fst second = Return r \<and>
         world (snd second) = world (snd first) \<and>
         calls (events (snd second)) = calls (events (snd first)))"
proof -
  have key: "cache_key L nm args kwargs' = cache_key L nm args kwargs"
    by (simp add: cache_key_def sort_key_permutation [OF assms(1,2)])
  let ?f = "cache_result T L (py_def nm body)"
  let ?s1 = "\<lparr>world = w1, clock = clock s + dt,
       cache = cache_setitem (cache s) (cache_key L nm args kwargs) r (clock s + dt),
       events = events s @ [Invoked nm, Logged DEBUG (CachedResult nm)]\<rparr>"
  have first: "func_call ?f args kwargs s = (Return r, ?s1)"
    by (rule cache_result_miss_return [where body = body, OF assms(3,4)])
  have second: "func_call ?f args kwargs' (time_passes later ?s1) =
      (Return r, (time_passes later ?s1)\<lparr>events := events (time_passes later ?s1) @
         [Logged DEBUG (CacheHit (func_name (py_def nm body)))]\<rparr>)"
    by (rule cache_result_hit [where c = "cache s" and now = "clock s + dt"])
      (use assms(5) in \<open>simp_all add: time_passes_simps py_def_name key\<close>)
  show ?thesis
    using key by (simp add: Let_def first second time_passes_simps calls_append)
qed

section \<open>cache_result: one store for all functions\<close>

text \<open>
  Claim C10. The cache key depends on the operation through its name only, and all
  wrapped operations share \<^verbatim>\<open>_cache\<close>: when two operations \<open>f\<close> and \<open>g\<close> have the same
  name, a call of cache-wrapped \<open>g\<close> with the same arguments, less than \<open>cache_ttl\<close>
  seconds after a call of cache-wrapped \<open>f\<close> has stored its result, returns the result
  of \<open>f\<close> without invoking \<open>g\<close>, whatever \<open>ttl_seconds\<close> either wrapper was given.
\<close>

theorem cache_shared_by_name:
  assumes "\<not> cache_contains (cache s) (cache_key L nm args kwargs) (clock s)"
    and "body_f args kwargs (world s) = (Return r, w1, dt)"
    and "later < cache_ttl"
  shows
    "(let first = func_call (cache_result ttl_f L (py_def nm body_f)) args kwargs s;
          second = func_call (cache_result ttl_g L (py_def nm body_g)) args kwargs
                     (time_passes later (snd first))
      in fst first = Return r \<and>
         fst second = Return r \<and>
         world (snd second) = world (snd first) \<and>
         calls (events (snd second)) = calls (events (snd first)))"
proof -
  let ?s1 = "\<lparr>world = w1, clock = clock s + dt,
       cache = cache_setitem (cache s) (cache_key L nm args kwargs) r (clock s + dt),
       events = events s @ [Invoked nm, Logged DEBUG (CachedResult nm)]\<rparr>"
  have first: "func_call (cache_result ttl_f L (py_def nm body_f)) args kwargs s = (Return r, ?s1)"
    by (rule cache_result_miss_return [where body = body_f, OF assms(1,2)])
  have second: "func_call (cache_result ttl_g L (py_def nm body_g)) args kwargs (time_passes later ?s1) =
      (Return r, (time_passes later ?s1)\<lparr>events := events (time_passes later ?s1) @
         [Logged DEBUG (CacheHit (func_name (py_def nm body_g)))]\<rparr>)"
    by (rule cache_result_hit [where c = "cache s" and now = "clock s + dt"])
      (use assms(3) in \<open>simp_all add: time_passes_simps py_def_name\<close>)
  show ?thesis
    by (simp add: Let_def first second time_passes_simps calls_append)
qed

lemma fresh_simps:
  "world fresh = 0" "clock fresh = 0" "cache fresh = []" "events fresh = []"
  by (simp_all add: fresh_def)

lemma fresh_miss: "\<not> cache_contains (cache fresh) key (clock fresh)"
  by (simp add: fresh_simps cache_contains_empty)

section \<open>cache_result: runs on sample inputs\<close>

text \<open>
  For claim C7: a wrapped operation that fails is called on an empty cache, and again five
  seconds later; both calls reach the operation.
\<close>

theorem cache_result_failure_not_cached_witness:
  "\<not> cache_contains (cache fresh) (cache_key sample_lib ''op'' [] []) (clock fresh) \<and>
   failing_body [] [] (world fresh) = (Raise \<lparr>cls = ValueError, msg = ''failure 1''\<rparr>, 1, 1) \<and>
   (0::real) \<le> 1 \<and> (0::real) \<le> 5 \<and>
   fst (func_call (cache_result 60 sample_lib (py_def ''op'' failing_body)) [] [] fresh) =
     Raise \<lparr>cls = ValueError, msg = ''failure 1''\<rparr> \<and>
   cache (snd (func_call (cache_result 60 sample_lib (py_def ''op'' failing_body)) [] [] fresh)) = [] \<and>
   fst (func_call (cache_result 60 sample_lib (py_def ''op'' failing_body)) [] []
          (time_passes 5 (snd (func_call (cache_result 60 sample_lib (py_def ''op'' failing_body)) [] [] fresh)))) =
     Raise \<lparr>cls = ValueError, msg = ''failure 2''\<rparr> \<and>
   calls (events (snd (func_call (cache_result 60 sample_lib (py_def ''op'' failing_body)) [] []
          (time_passes 5 (snd (func_call (cache_result 60 sample_lib (py_def ''op'' failing_body)) [] [] fresh)))))) =
     calls (events (snd (func_call (cache_result 60 sample_lib (py_def ''op'' failing_body)) [] [] fresh))) + 1"
proof -
  have h1: "\<not> cache_contains (cache fresh) (cache_key sample_lib ''op'' [] []) (clock fresh)"
    by (rule fresh_miss)
  have h2: "failing_body [] [] (world fresh) = (Raise \<lparr>cls = ValueError, msg = ''failure 1''\<rparr>, 1, 1)"
    by (simp add: failing_body_def fresh_simps str_nat_digit)
  have h3: "(0::real) \<le> 1" and h4: "(0::real) \<le> 5" by simp_all
  have f2: "fst (failing_body [] [] 1) = Raise \<lparr>cls = ValueError, msg = ''failure 2''\<rparr>"
    by (simp add: failing_body_def str_nat_digit)
  note t = cache_result_failure_not_cached [where body = failing_body and T = 60, OF h1 h2 h3 h4,
      unfolded Let_def f2 fresh_simps]
  show ?thesis
    using h1 h2 t by simp
qed

text \<open>
  For claim C8: a call with \<^verbatim>\<open>a=1, b=2\<close> and, 200 seconds later, one with
  \<^verbatim>\<open>b=2, a=1\<close>.
\<close>

theorem cache_key_kwargs_order_witness:
  "distinct (map fst [(''a'', Obj 1), (''b'', Obj (2::int))]) \<and>
   mset [(''b'', Obj 2), (''a'', Obj (1::int))] = mset [(''a'', Obj 1), (''b'', Obj 2)] \<and>
   \<not> cache_contains (cache fresh)
       (cache_key sample_lib ''op'' [] [(''a'', Obj 1), (''b'', Obj 2)]) (clock fresh) \<and>
   counting_body [] [(''a'', Obj 1), (''b'', Obj 2)] (world fresh) = (Return (Obj 0), 1, 1) \<and>
   (200::real) < cache_ttl \<and>
   cache_key sample_lib ''op'' [] [(''b'', Obj 2), (''a'', Obj 1)] =
     cache_key sample_lib ''op'' [] [(''a'', Obj 1), (''b'', Obj 2)] \<and>
   fst (func_call (cache_result 60 sample_lib (py_def ''op'' counting_body)) []
          [(''b'', Obj 2), (''a'', Obj 1)]
          (time_passes 200 (snd (func_call (cache_result 60 sample_lib (py_def ''op'' counting_body)) []
             [(''a'', Obj 1), (''b'', Obj 2)] fresh)))) = Return (Obj 0)"
proof -
  have h1: "distinct (map fst [(''a'', Obj 1), (''b'', Obj (2::int))])" by simp
  have h2: "mset [(''b'', Obj 2), (''a'', Obj (1::int))] = mset [(''a'', Obj 1), (''b'', Obj 2)]"
    by simp
  have h3: "\<not> cache_contains (cache fresh)
       (cache_key sample_lib ''op'' [] [(''a'', Obj 1), (''b'', Obj 2)]) (clock fresh)"
    by (rule fresh_miss)
  have h4: "counting_body [] [(''a'', Obj 1), (''b'', Obj 2)] (world fresh) = (Return (Obj 0), 1, 1)"
    by (simp add: counting_body_def fresh_simps)
  have h5: "(200::real) < cache_ttl" by (simp add: cache_ttl_def)
  note t = cache_key_kwargs_order [where body = counting_body and T = 60, OF h1 h2 h3 h4 h5,
      unfolded Let_def]
  show ?thesis
    using h1 h2 h3 h4 h5 t by blast
qed

text \<open>
  For claim C10: two functions named \<^verbatim>\<open>op\<close>, the first wrapped with 60 seconds and the
  second with one second; the second is called 200 seconds after the first.
\<close>

theorem cache_shared_by_name_witness:
  "\<not> cache_contains (cache fresh) (cache_key sample_lib ''op'' [Obj 7] []) (clock fresh) \<and>
   counting_body [Obj 7] [] (world fresh) = (Return (Obj 0), 1, 1) \<and>
   (200::real) < cache_ttl \<and>
   other_body [Obj 7] [] 1 = (Return (Obj (- 1)), 2, 1) \<and>
   fst (func_call (cache_result 1 sample_lib (py_def ''op'' other_body)) [Obj 7] []
          (time_passes 200 (snd (func_call (cache_result 60 sample_lib (py_def ''op'' counting_body))
             [Obj 7] [] fresh)))) = Return (Obj 0) \<and>
   world (snd (func_call (cache_result 1 sample_lib (py_def ''op'' other_body)) [Obj 7] []
          (time_passes 200 (snd (func_call (cache_result 60 sample_lib (py_def ''op'' counting_body))
             [Obj 7] [] fresh))))) = 1"
proof -
  have h1: "\<not> cache_contains (cache fresh) (cache_key sample_lib ''op'' [Obj 7] []) (clock fresh)"
    by (rule fresh_miss)
  have h2: "counting_body [Obj 7] [] (world fresh) = (Return (Obj 0), 1, 1)"
    by (simp add: counting_body_def fresh_simps)
  have h3: "(200::real) < cache_ttl" by (simp add: cache_ttl_def)
  have g: "other_body [Obj 7] [] 1 = (Return (Obj (- 1)), 2, 1)"
    by (simp add: other_body_def)
  have w1: "world (snd (func_call (cache_result 60 sample_lib (py_def ''op'' counting_body))
             [Obj 7] [] fresh)) = 1"
    by (simp add: cache_result_miss_return [where body = counting_body, OF h1 h2])
  note t = cache_shared_by_name [where body_f = counting_body and body_g = other_body
      and ttl_f = 60 and ttl_g = 1, OF h1 h2 h3, unfolded Let_def]
  show ?thesis
    using h1 h2 h3 g t w1 by simp
qed

section \<open>cache_result: the parameter ttl_seconds\<close>

text \<open>
  Claim C2 says that a result stored by \<^verbatim>\<open>cache_result(ttl_seconds=T)\<close> is served for
  \<open>T\<close> seconds and no longer. The code never reads \<open>ttl_seconds\<close>: every entry lives for
  the 300 seconds of \<^verbatim>\<open>_cache\<close>. With \<open>T = 10\<close>, a second call 20 seconds after the
  first is still served from the cache (one invocation in all); with \<open>T = 600\<close>, a second
  call 400 seconds after the first invokes the operation again (two invocations).
\<close>

theorem cache_result_ignores_ttl_seconds:
  "(let f = cache_result 10 L (py_def ''op'' counting_body);
        first = func_call f [] [] fresh;
        second = func_call f [] [] (time_passes 20 (snd first))
    in fst first = Return (Obj 0) \<and> fst second = Return (Obj 0) \<and>
       calls (events (snd second)) = 1) \<and>
   (let f = cache_result 600 L (py_def ''op'' counting_body);
        first = func_call f [] [] fresh;
        second = func_call f [] [] (time_passes 400 (snd first))
    in fst first = Return (Obj 0) \<and> fst second = Return (Obj 1) \<and>
       calls (events (snd second)) = 2)"
proof -
  let ?key = "cache_key L ''op'' [] []"
  let ?s1 = "\<lparr>world = 1, clock = clock fresh + 1,
       cache = cache_setitem (cache fresh) ?key (Obj 0) (clock fresh + 1),
       events = events fresh @ [Invoked ''op'', Logged DEBUG (CachedResult ''op'')]\<rparr> :: (nat, int) sys"
  have b0: "counting_body [] [] (world fresh) = (Return (Obj 0), 1, 1)"
    by (simp add: counting_body_def fresh_simps)
  have first: "func_call (cache_result T L (py_def ''op'' counting_body)) [] [] fresh = (Return (Obj 0), ?s1)"
    for T
    by (rule cache_result_miss_return [where body = counting_body, OF fresh_miss b0])
  have hit: "func_call (cache_result 10 L (py_def ''op'' counting_body)) [] [] (time_passes 20 ?s1) =
      (Return (Obj 0), (time_passes 20 ?s1)\<lparr>events := events (time_passes 20 ?s1) @
         [Logged DEBUG (CacheHit (func_name (py_def ''op'' counting_body)))]\<rparr>)"
    by (rule cache_result_hit [where c = "cache fresh" and now = "clock fresh + 1"])
      (simp_all add: time_passes_simps py_def_name fresh_simps cache_ttl_def)
  have miss: "\<not> cache_contains (cache (time_passes 400 ?s1)) ?key (clock (time_passes 400 ?s1))"
    by (simp add: time_passes_simps cache_contains_setitem fresh_simps cache_ttl_def)
  have b1: "counting_body [] [] (world (time_passes 400 ?s1)) = (Return (Obj 1), 2, 1)"
    by (simp add: counting_body_def time_passes_simps)
  note again = cache_result_miss_return [where body = counting_body and T = 600, OF miss b1]
  show ?thesis
    unfolding Let_def first snd_conv fst_conv hit again
    by (simp add: time_passes_simps fresh_simps)
qed

end
